theory Spec2Isabelle
  imports Main "HOL-Library.AList" "HOL-Library.Word"
begin

section \<open>Errors, wire values and HTTP responses\<close>

text \<open>
  Go's \<open>error\<close> values. The handlers compare errors by identity against the two
  sentinels \<open>ErrNotFound\<close> (package samlidp, returned by \<open>Store.Get\<close>) and
  \<open>os.ErrNotExist\<close> (returned by \<open>GetServiceProvider\<close>); every other error is
  \<open>ErrOther\<close> with its message. \<open>ErrOther ''not found''\<close> is a different value from
  \<open>ErrNotFound\<close>, as a second \<open>errors.New("not found")\<close> would be in Go.
\<close>

datatype error = ErrNotFound | ErrNotExist | ErrOther string

fun Error :: "error \<Rightarrow> string" where
  "Error ErrNotFound = ''not found''"
| "Error ErrNotExist = ''file does not exist''"
| "Error (ErrOther msg) = msg"

text \<open>
  A parsed JSON document. A number keeps its literal text; no handler of this model
  reads one.
\<close>

datatype json =
    JNull
  | JBool bool
  | JNumber string
  | JString string
  | JArray "json list"
  | JObject "(string \<times> json) list"

text \<open>
  Modelled from the spec: \<open>saml.EntityDescriptor\<close> is declared in the root package of
  the repository, which is not among the sources. The spec says it "contains at minimum
  a unique EntityID (string) used as the Registry key"; the handlers read no other field,
  so the rest of the descriptor is one opaque field.
\<close>

record EntityDescriptor =
  EntityID :: string
  Elements :: string

text \<open>
  What a handler wrote to the \<open>ResponseWriter\<close>: the status code and the body.
  \<open>JSONBody j\<close> is the output of \<open>json.NewEncoder(w).Encode\<close> for the document \<open>j\<close>,
  \<open>XMLBody d\<close> the output of \<open>xml.NewEncoder(w).Encode(d)\<close>: both encoders are
  functions of the value they are given.
\<close>

datatype body = NoBody | Text string | JSONBody json | XMLBody EntityDescriptor

record response =
  StatusCode :: nat
  Body :: body

definition StatusNoContent :: nat where
  "StatusNoContent = 204"

definition StatusBadRequest :: nat where
  "StatusBadRequest = 400"

definition StatusInternalServerError :: nat where
  "StatusInternalServerError = 500"

definition StatusOK :: nat where
  "StatusOK = 200"

definition StatusText :: "nat \<Rightarrow> string" where
  "StatusText code =
     (if code = 200 then ''OK''
      else if code = 204 then ''No Content''
      else if code = 400 then ''Bad Request''
      else if code = 500 then ''Internal Server Error''
      else [])"

text \<open>\<open>http.Error(w, msg, code)\<close>: the status \<open>code\<close> and the message followed by a newline.\<close>

definition http_Error :: "string \<Rightarrow> nat \<Rightarrow> response" where
  "http_Error msg code = \<lparr>StatusCode = code, Body = Text (msg @ [CHR 0x0A])\<rparr>"

text \<open>\<open>w.WriteHeader(code)\<close> with nothing written after it.\<close>

definition WriteHeader :: "nat \<Rightarrow> response" where
  "WriteHeader code = \<lparr>StatusCode = code, Body = NoBody\<rparr>"

text \<open>An encoder writing to a fresh \<open>ResponseWriter\<close>: the first write sends status 200.\<close>

definition Encode :: "body \<Rightarrow> response" where
  "Encode b = \<lparr>StatusCode = StatusOK, Body = b\<rparr>"

section \<open>The Store interface and the Server\<close>

text \<open>
  \<open>Store\<close> is an interface: the handlers work against any implementation. An
  implementation is a record of its four methods over its own state \<open>'st\<close>, for values
  of type \<open>'v\<close> (the Go methods take \<open>interface{}\<close>; each handler uses the store at one
  resource type). \<open>Get\<close> and \<open>List\<close> read the state; \<open>Put\<close> and \<open>Delete\<close> return the new
  state, or the error. The \<open>context\<close> argument carries no data and is left out.
\<close>

record ('st, 'v) Store =
  Get :: "'st \<Rightarrow> string \<Rightarrow> error + 'v"
  Put :: "'st \<Rightarrow> string \<Rightarrow> 'v \<Rightarrow> error + 'st"
  Delete :: "'st \<Rightarrow> string \<Rightarrow> error + 'st"
  List :: "'st \<Rightarrow> string \<Rightarrow> error + string list"

text \<open>
  The fields of \<open>Server\<close> that the handlers touch: the registry \<open>serviceProviders\<close>
  (a Go map from entity ID to a pointer to a descriptor that is never written again, so
  the map holds the descriptor itself), the state of the store, and the lines given to
  \<open>logger.Printf\<close>. One request runs at a time in this model, so the lock
  \<open>idpConfigMu\<close> is not represented.
\<close>

record 'st Server =
  serviceProviders :: "string \<rightharpoonup> EntityDescriptor"
  StoreState :: 'st
  logger :: "string list"

text \<open>\<open>s.logger.Printf("ERROR: %s", err)\<close>\<close>

definition log_ERROR :: "error \<Rightarrow> 'st Server \<Rightarrow> 'st Server" where
  "log_ERROR err s = s\<lparr>logger := logger s @ [''ERROR: '' @ Error err]\<rparr>"

section \<open>Services and the service-provider registry\<close>

record Service =
  Name :: string
  Metadata :: EntityDescriptor

definition GetServiceProvider :: "'st Server \<Rightarrow> string \<Rightarrow> error + EntityDescriptor" where
  "GetServiceProvider s serviceProviderID =
     (case serviceProviders s serviceProviderID of
        None \<Rightarrow> Inl ErrNotExist
      | Some rv \<Rightarrow> Inr rv)"

definition services_key :: "string \<Rightarrow> string" where
  "services_key param_id = ''/services/'' @ param_id"

definition HandleGetService ::
  "('st, Service) Store \<Rightarrow> 'st Server \<Rightarrow> string \<Rightarrow> response \<times> 'st Server" where
  "HandleGetService S s param_id =
     (case Get S (StoreState s) (services_key param_id) of
        Inl err \<Rightarrow>
          (http_Error (StatusText StatusInternalServerError) StatusInternalServerError,
           log_ERROR err s)
      | Inr service \<Rightarrow> (Encode (XMLBody (Metadata service)), s))"

text \<open>
  \<open>getSPMetadata\<close> is not among the sources; \<open>HandlePutService\<close> receives its result
  for the request body, the parsed descriptor or the error. The \<open>Service\<close> starts as the
  zero value and only \<open>Metadata\<close> is assigned.
\<close>

definition HandlePutService ::
  "('st, Service) Store \<Rightarrow> 'st Server \<Rightarrow> string \<Rightarrow> error + EntityDescriptor
     \<Rightarrow> response \<times> 'st Server" where
  "HandlePutService S s param_id getSPMetadata =
     (case getSPMetadata of
        Inl err \<Rightarrow>
          (http_Error (StatusText StatusBadRequest) StatusBadRequest, log_ERROR err s)
      | Inr metadata \<Rightarrow>
          (let service = \<lparr>Service.Name = [], Metadata = metadata\<rparr> in
           case Put S (StoreState s) (services_key param_id) service of
             Inl err \<Rightarrow>
               (http_Error (StatusText StatusInternalServerError) StatusInternalServerError,
                log_ERROR err s)
           | Inr st' \<Rightarrow>
               (WriteHeader StatusNoContent,
                s\<lparr>StoreState := st',
                  serviceProviders :=
                    (serviceProviders s)(EntityID (Metadata service) \<mapsto> Metadata service)\<rparr>)))"

definition HandleDeleteService ::
  "('st, Service) Store \<Rightarrow> 'st Server \<Rightarrow> string \<Rightarrow> response \<times> 'st Server" where
  "HandleDeleteService S s param_id =
     (case Get S (StoreState s) (services_key param_id) of
        Inl err \<Rightarrow>
          (http_Error (StatusText StatusInternalServerError) StatusInternalServerError,
           log_ERROR err s)
      | Inr service \<Rightarrow>
          (case Delete S (StoreState s) (services_key param_id) of
             Inl err \<Rightarrow>
               (http_Error (StatusText StatusInternalServerError) StatusInternalServerError,
                log_ERROR err s)
           | Inr st' \<Rightarrow>
               (WriteHeader StatusNoContent,
                s\<lparr>StoreState := st',
                  serviceProviders :=
                    (serviceProviders s)(EntityID (Metadata service) := None)\<rparr>)))"

text \<open>
  The loop of \<open>initializeServices\<close> over the listed names: it returns at the first
  \<open>Get\<close> that fails, with the entries inserted so far left in the registry.
\<close>

fun initializeServices_loop ::
  "('st, Service) Store \<Rightarrow> 'st Server \<Rightarrow> string list \<Rightarrow> error option \<times> 'st Server" where
  "initializeServices_loop S s [] = (None, s)"
| "initializeServices_loop S s (serviceName # serviceNames) =
     (case Get S (StoreState s) (services_key serviceName) of
        Inl err \<Rightarrow> (Some err, s)
      | Inr service \<Rightarrow>
          initializeServices_loop S
            (s\<lparr>serviceProviders :=
                 (serviceProviders s)(EntityID (Metadata service) \<mapsto> Metadata service)\<rparr>)
            serviceNames)"

definition initializeServices ::
  "('st, Service) Store \<Rightarrow> 'st Server \<Rightarrow> error option \<times> 'st Server" where
  "initializeServices S s =
     (case List S (StoreState s) ''/services/'' of
        Inl err \<Rightarrow> (Some err, s)
      | Inr serviceNames \<Rightarrow> initializeServices_loop S s serviceNames)"

text \<open>
  \<open>New\<close>, as far as the registry goes: the server starts with an empty map and the
  given store, and is returned only when \<open>initializeServices\<close> reports no error.
\<close>

definition empty_Server :: "'st \<Rightarrow> 'st Server" where
  "empty_Server st = \<lparr>serviceProviders = Map.empty, StoreState = st, logger = []\<rparr>"

definition New :: "('st, Service) Store \<Rightarrow> 'st \<Rightarrow> error + 'st Server" where
  "New S st =
     (case initializeServices S (empty_Server st) of
        (Some err, s) \<Rightarrow> Inl err
      | (None, s) \<Rightarrow> Inr s)"

section \<open>Users\<close>

type_synonym byte = "8 word"

text \<open>
  \<open>PlaintextPassword\<close> is a \<open>*string\<close>: \<open>None\<close> is the nil pointer. \<open>HashedPassword\<close>
  is a byte slice; the code only tests and copies it, and JSON's \<open>omitempty\<close> treats the
  nil and the empty slice alike, so both are \<open>[]\<close>.
\<close>

record User =
  Name :: string
  PlaintextPassword :: "string option"
  HashedPassword :: "byte list"
  Groups :: "string list"
  Email :: string
  CommonName :: string
  Surname :: string
  GivenName :: string
  ScopedAffiliation :: string

text \<open>
  The standard base64 text of a byte slice (\<open>base64.StdEncoding.EncodeToString\<close>), which
  is how \<open>encoding/json\<close> writes a \<open>[]byte\<close>.
\<close>

definition encodeStd :: string where
  "encodeStd = ''ABCDEFGHIJKLMNOPQRSTUVWXYZabcdefghijklmnopqrstuvwxyz0123456789+/''"

definition base64_digit :: "nat \<Rightarrow> char" where
  "base64_digit n = encodeStd ! (n mod 64)"

fun EncodeToString :: "byte list \<Rightarrow> string" where
  "EncodeToString [] = []"
| "EncodeToString [a] =
     [base64_digit (unat a div 4), base64_digit (unat a mod 4 * 16), CHR ''='', CHR ''='']"
| "EncodeToString [a, b] =
     [base64_digit (unat a div 4), base64_digit (unat a mod 4 * 16 + unat b div 16),
      base64_digit (unat b mod 16 * 4), CHR ''='']"
| "EncodeToString (a # b # c # rest) =
     [base64_digit (unat a div 4), base64_digit (unat a mod 4 * 16 + unat b div 16),
      base64_digit (unat b mod 16 * 4 + unat c div 64), base64_digit (unat c mod 64)]
     @ EncodeToString rest"

text \<open>
  The JSON object that \<open>encoding/json\<close> writes for a \<open>User\<close>, from the struct tags: the
  fields in declaration order under their tag names, a field tagged \<open>omitempty\<close> left out
  when it is the nil pointer, the empty slice or the empty string. \<open>JString s\<close> is the
  JSON string written for the Go string \<open>s\<close>.
\<close>

definition omitempty :: "string \<Rightarrow> string \<Rightarrow> (string \<times> json) list" where
  "omitempty tag v = (if v = [] then [] else [(tag, JString v)])"

definition json_User :: "User \<Rightarrow> json" where
  "json_User u = JObject (
     [(''name'', JString (User.Name u))]
     @ (case PlaintextPassword u of None \<Rightarrow> [] | Some p \<Rightarrow> [(''password'', JString p)])
     @ (if HashedPassword u = [] then []
        else [(''hashed_password'', JString (EncodeToString (HashedPassword u)))])
     @ (if Groups u = [] then [] else [(''groups'', JArray (map JString (Groups u)))])
     @ omitempty ''email'' (Email u)
     @ omitempty ''common_name'' (CommonName u)
     @ omitempty ''surname'' (Surname u)
     @ omitempty ''given_name'' (GivenName u)
     @ omitempty ''scoped_affiliation'' (ScopedAffiliation u))"

definition users_key :: "string \<Rightarrow> string" where
  "users_key param_id = ''/users/'' @ param_id"

definition HandleGetUser ::
  "('st, User) Store \<Rightarrow> 'st Server \<Rightarrow> string \<Rightarrow> response \<times> 'st Server" where
  "HandleGetUser S s param_id =
     (case Get S (StoreState s) (users_key param_id) of
        Inl err \<Rightarrow>
          (http_Error (StatusText StatusInternalServerError) StatusInternalServerError,
           log_ERROR err s)
      | Inr user \<Rightarrow> (Encode (JSONBody (json_User (user\<lparr>HashedPassword := []\<rparr>))), s))"

text \<open>
  \<open>HandlePutUser\<close> receives the result of \<open>json.NewDecoder(body).Decode(&user)\<close> on the
  zero \<open>User\<close> (the decoded record, or the error), and the outcome of
  \<open>bcrypt.GenerateFromPassword\<close> as a function of the password: bcrypt salts at random
  and can fail, so the hash is whatever this call returned. \<open>credential\<close> is the
  \<open>if\<close>/\<open>else\<close> on \<open>PlaintextPassword\<close>: the user with \<open>HashedPassword\<close> settled, or the
  error on which either branch logs and answers 500.
\<close>

definition credential ::
  "('st, User) Store \<Rightarrow> (string \<Rightarrow> error + byte list) \<Rightarrow> 'st Server \<Rightarrow> string \<Rightarrow> User
     \<Rightarrow> error + User" where
  "credential S GenerateFromPassword s param_id user =
     (case PlaintextPassword user of
        Some password \<Rightarrow>
          (case GenerateFromPassword password of
             Inl err \<Rightarrow> Inl err
           | Inr hashed \<Rightarrow> Inr (user\<lparr>HashedPassword := hashed\<rparr>))
      | None \<Rightarrow>
          (case Get S (StoreState s) (users_key param_id) of
             Inr existingUser \<Rightarrow> Inr (user\<lparr>HashedPassword := HashedPassword existingUser\<rparr>)
           | Inl err \<Rightarrow> if err = ErrNotFound then Inr user else Inl err))"

definition HandlePutUser ::
  "('st, User) Store \<Rightarrow> (string \<Rightarrow> error + byte list) \<Rightarrow> 'st Server \<Rightarrow> string
     \<Rightarrow> error + User \<Rightarrow> response \<times> 'st Server" where
  "HandlePutUser S GenerateFromPassword s param_id decoded =
     (case decoded of
        Inl err \<Rightarrow>
          (http_Error (StatusText StatusBadRequest) StatusBadRequest, log_ERROR err s)
      | Inr body_user \<Rightarrow>
          (case credential S GenerateFromPassword s param_id
                  (body_user\<lparr>User.Name := param_id\<rparr>) of
             Inl err \<Rightarrow>
               (http_Error (StatusText StatusInternalServerError) StatusInternalServerError,
                log_ERROR err s)
           | Inr user \<Rightarrow>
               (case Put S (StoreState s) (users_key param_id)
                       (user\<lparr>PlaintextPassword := None\<rparr>) of
                  Inl err \<Rightarrow>
                    (http_Error (StatusText StatusInternalServerError)
                       StatusInternalServerError,
                     log_ERROR err s)
                | Inr st' \<Rightarrow> (WriteHeader StatusNoContent, s\<lparr>StoreState := st'\<rparr>))))"

section \<open>Shortcuts and the IDP-initiated login\<close>

record Shortcut =
  Name :: string
  ServiceProviderID :: string
  RelayState :: "string option"
  URISuffixAsRelayState :: bool

definition json_Shortcut :: "Shortcut \<Rightarrow> json" where
  "json_Shortcut sc = JObject (
     [(''name'', JString (Shortcut.Name sc)),
      (''service_provider'', JString (ServiceProviderID sc))]
     @ (case RelayState sc of None \<Rightarrow> [] | Some r \<Rightarrow> [(''relay_state'', JString r)])
     @ (if URISuffixAsRelayState sc then [(''url_suffix_as_relay_state'', JBool True)]
        else []))"

definition shortcuts_key :: "string \<Rightarrow> string" where
  "shortcuts_key param_id = ''/shortcuts/'' @ param_id"

text \<open>The shortcut handlers of the CRUD surface do not log.\<close>

definition HandleGetShortcut ::
  "('st, Shortcut) Store \<Rightarrow> 'st Server \<Rightarrow> string \<Rightarrow> response \<times> 'st Server" where
  "HandleGetShortcut S s param_id =
     (case Get S (StoreState s) (shortcuts_key param_id) of
        Inl err \<Rightarrow>
          (http_Error (StatusText StatusInternalServerError) StatusInternalServerError, s)
      | Inr shortcut \<Rightarrow> (Encode (JSONBody (json_Shortcut shortcut)), s))"

definition HandlePutShortcut ::
  "('st, Shortcut) Store \<Rightarrow> 'st Server \<Rightarrow> string \<Rightarrow> error + Shortcut
     \<Rightarrow> response \<times> 'st Server" where
  "HandlePutShortcut S s param_id decoded =
     (case decoded of
        Inl err \<Rightarrow> (http_Error (StatusText StatusBadRequest) StatusBadRequest, s)
      | Inr body_shortcut \<Rightarrow>
          (case Put S (StoreState s) (shortcuts_key param_id)
                  (body_shortcut\<lparr>Shortcut.Name := param_id\<rparr>) of
             Inl err \<Rightarrow>
               (http_Error (StatusText StatusInternalServerError) StatusInternalServerError, s)
           | Inr st' \<Rightarrow> (WriteHeader StatusNoContent, s\<lparr>StoreState := st'\<rparr>)))"

text \<open>
  The \<open>switch\<close> of \<open>HandleIDPInitiated\<close>: the first case that holds decides, and with
  neither the relay state keeps its initial value, the empty string. \<open>state\<close> is
  \<open>ctx.Param("state")\<close>: the last path segment on the route \<open>/login/:shortcut/:state\<close>,
  the empty string on \<open>/login/:shortcut\<close>.
\<close>

definition relayState_of :: "Shortcut \<Rightarrow> string \<Rightarrow> string" where
  "relayState_of shortcut state =
     (case RelayState shortcut of
        Some fixed \<Rightarrow> fixed
      | None \<Rightarrow> if URISuffixAsRelayState shortcut then state else [])"

text \<open>
  What \<open>HandleIDPInitiated\<close> does with the request: it answers itself, or it calls
  \<open>s.IDP.ServeIDPInitiated(w, r, serviceProviderID, relayState)\<close> of the protocol engine,
  which is outside this code.
\<close>

datatype handled = Wrote response | ServeIDPInitiated string string

definition HandleIDPInitiated ::
  "('st, Shortcut) Store \<Rightarrow> 'st Server \<Rightarrow> string \<Rightarrow> string \<Rightarrow> handled \<times> 'st Server" where
  "HandleIDPInitiated S s shortcutName state =
     (case Get S (StoreState s) (shortcuts_key shortcutName) of
        Inl err \<Rightarrow>
          (Wrote (http_Error (StatusText StatusInternalServerError) StatusInternalServerError),
           log_ERROR err s)
      | Inr shortcut \<Rightarrow>
          (ServeIDPInitiated (ServiceProviderID shortcut) (relayState_of shortcut state), s))"

subsection \<open>Decoding a Shortcut from the request body\<close>

text \<open>
  \<open>json.NewDecoder(body).Decode(&shortcut)\<close> on the zero \<open>Shortcut\<close>, as far as the
  struct tags of the source decide it. The body is given as the first JSON document
  read from it, \<open>None\<close> when there is none (an empty body or a syntax error).

  A key of the object selects the field whose tag it equals, and otherwise the first
  field whose tag it equals under case folding; a key that selects no field is skipped.
  Folding maps the ASCII letters to upper case; the only other characters that fold to
  an ASCII letter are the Kelvin sign (UTF-8 \<open>E2 84 AA\<close>, to K) and the long s
  (\<open>C5 BF\<close>, to S).
\<close>

definition ascii_upper :: "char \<Rightarrow> char" where
  "ascii_upper c =
     (let n = of_char c :: nat in if 97 \<le> n \<and> n \<le> 122 then char_of (n - 32) else c)"

fun foldName :: "string \<Rightarrow> string" where
  "foldName [] = []"
| "foldName (c # cs) =
     (if c = CHR 0xE2 \<and> take 2 cs = [CHR 0x84, CHR 0xAA] then CHR ''K'' # foldName (drop 2 cs)
      else if c = CHR 0xC5 \<and> take 1 cs = [CHR 0xBF] then CHR ''S'' # foldName (drop 1 cs)
      else ascii_upper c # foldName cs)"

definition field_of_key :: "string list \<Rightarrow> string \<Rightarrow> string option" where
  "field_of_key tags key =
     (if key \<in> set tags then Some key
      else find (\<lambda>tag. foldName tag = foldName key) tags)"

definition Shortcut_tags :: "string list" where
  "Shortcut_tags = [''name'', ''service_provider'', ''relay_state'', ''url_suffix_as_relay_state'']"

definition UnmarshalTypeError :: error where
  "UnmarshalTypeError = ErrOther ''json: cannot unmarshal value into Go struct field''"

text \<open>
  Storing one JSON value into a field. \<open>null\<close> leaves a string or a bool as it is and
  sets a pointer to nil; a value of another JSON type than the field's is an
  \<open>UnmarshalTypeError\<close>. \<open>Decode\<close> reports the first such error after reading the whole
  document, and the handler then discards the record, so the model stops at it.
\<close>

definition set_string :: "string \<Rightarrow> json \<Rightarrow> error + string" where
  "set_string old v =
     (case v of JString x \<Rightarrow> Inr x | JNull \<Rightarrow> Inr old | _ \<Rightarrow> Inl UnmarshalTypeError)"

definition set_string_ptr :: "json \<Rightarrow> error + string option" where
  "set_string_ptr v =
     (case v of JString x \<Rightarrow> Inr (Some x) | JNull \<Rightarrow> Inr None | _ \<Rightarrow> Inl UnmarshalTypeError)"

definition set_bool :: "bool \<Rightarrow> json \<Rightarrow> error + bool" where
  "set_bool old v =
     (case v of JBool x \<Rightarrow> Inr x | JNull \<Rightarrow> Inr old | _ \<Rightarrow> Inl UnmarshalTypeError)"

definition Shortcut_set_field :: "Shortcut \<Rightarrow> string \<Rightarrow> json \<Rightarrow> error + Shortcut" where
  "Shortcut_set_field sc tag v =
     (if tag = ''name'' then
        map_sum (\<lambda>e. e) (\<lambda>x. sc\<lparr>Shortcut.Name := x\<rparr>) (set_string (Shortcut.Name sc) v)
      else if tag = ''service_provider'' then
        map_sum (\<lambda>e. e) (\<lambda>x. sc\<lparr>ServiceProviderID := x\<rparr>) (set_string (ServiceProviderID sc) v)
      else if tag = ''relay_state'' then
        map_sum (\<lambda>e. e) (\<lambda>x. sc\<lparr>RelayState := x\<rparr>) (set_string_ptr v)
      else if tag = ''url_suffix_as_relay_state'' then
        map_sum (\<lambda>e. e) (\<lambda>x. sc\<lparr>URISuffixAsRelayState := x\<rparr>)
          (set_bool (URISuffixAsRelayState sc) v)
      else Inr sc)"

fun Shortcut_object :: "Shortcut \<Rightarrow> (string \<times> json) list \<Rightarrow> error + Shortcut" where
  "Shortcut_object sc [] = Inr sc"
| "Shortcut_object sc ((key, v) # members) =
     (case field_of_key Shortcut_tags key of
        None \<Rightarrow> Shortcut_object sc members
      | Some tag \<Rightarrow>
          (case Shortcut_set_field sc tag v of
             Inl err \<Rightarrow> Inl err
           | Inr sc' \<Rightarrow> Shortcut_object sc' members))"

definition Shortcut_zero :: Shortcut where
  "Shortcut_zero =
     \<lparr>Name = [], ServiceProviderID = [], RelayState = None, URISuffixAsRelayState = False\<rparr>"

definition Decode_Shortcut :: "json option \<Rightarrow> error + Shortcut" where
  "Decode_Shortcut doc =
     (case doc of
        None \<Rightarrow> Inl (ErrOther ''EOF'')
      | Some JNull \<Rightarrow> Inr Shortcut_zero
      | Some (JObject members) \<Rightarrow> Shortcut_object Shortcut_zero members
      | Some _ \<Rightarrow> Inl UnmarshalTypeError)"

section \<open>Two implementations of the Store interface\<close>

text \<open>
  Modelled from the spec: no implementation of \<open>Store\<close> is among the sources. Section 4.1
  of the spec gives the contract: \<open>get\<close> fails with \<open>NotFound\<close> if no entry exists at the
  key; \<open>put\<close> upserts and overwrites silently; \<open>delete\<close> fails with \<open>NotFound\<close> if absent;
  \<open>list\<close> returns the keys that start with the prefix, with the prefix stripped, and the
  empty list if nothing matches. The state is the list of entries.
\<close>

definition MemoryStore :: "((string \<times> 'v) list, 'v) Store" where
  "MemoryStore =
     \<lparr>Get = (\<lambda>st key. case map_of st key of None \<Rightarrow> Inl ErrNotFound | Some v \<Rightarrow> Inr v),
      Put = (\<lambda>st key v. Inr (AList.update key v st)),
      Delete = (\<lambda>st key. case map_of st key of
                           None \<Rightarrow> Inl ErrNotFound
                         | Some v \<Rightarrow> Inr (AList.delete key st)),
      List = (\<lambda>st prefix.
                Inr (map (drop (length prefix))
                       (filter (\<lambda>key. take (length prefix) key = prefix) (map fst st))))\<rparr>"

text \<open>A backend that is down: every call returns the error \<open>err\<close>.\<close>

definition UnavailableStore :: "error \<Rightarrow> (unit, 'v) Store" where
  "UnavailableStore err =
     \<lparr>Get = (\<lambda>st key. Inl err),
      Put = (\<lambda>st key v. Inl err),
      Delete = (\<lambda>st key. Inl err),
      List = (\<lambda>st prefix. Inl err)\<rparr>"

section \<open>Concrete inputs\<close>

definition sp_meta :: EntityDescriptor where
  "sp_meta = \<lparr>EntityID = ''https://sp.example/meta'', Elements = ''<SPSSODescriptor/>''\<rparr>"




definition old_meta :: EntityDescriptor where
  "old_meta = \<lparr>EntityID = ''https://old.example/meta'', Elements = ''<SPSSODescriptor/>''\<rparr>"

definition down :: error where
  "down = ErrOther ''connection refused''"

text \<open>A server whose store and registry hold one service, \<open>old_meta\<close> under the id \<open>app\<close>.\<close>

definition app_Server :: "(string \<times> Service) list Server" where
  "app_Server =
     \<lparr>serviceProviders = [EntityID old_meta \<mapsto> old_meta],
      StoreState = [(''/services/app'', \<lparr>Service.Name = [], Metadata = old_meta\<rparr>)],
      logger = []\<rparr>"

definition alice_body :: User where
  "alice_body =
     \<lparr>User.Name = ''mallory'', PlaintextPassword = None, HashedPassword = [],
      Groups = [], Email = ''alice@example.com'', CommonName = [], Surname = [],
      GivenName = [], ScopedAffiliation = []\<rparr>"

definition alice_stored :: User where
  "alice_stored =
     \<lparr>User.Name = ''alice'', PlaintextPassword = None, HashedPassword = [0x24, 0x32, 0x61],
      Groups = [''admins''], Email = ''old@example.com'', CommonName = ''Alice'', Surname = [],
      GivenName = [], ScopedAffiliation = []\<rparr>"

text \<open>An outcome of bcrypt for the witnesses: it rejects the empty password.\<close>

definition bcrypt_demo :: "string \<Rightarrow> error + byte list" where
  "bcrypt_demo password =
     (if password = [] then Inl (ErrOther ''bcrypt: failed'') else Inr [0x24, 0x32, 0x62])"

definition forged_body :: User where
  "forged_body =
     \<lparr>User.Name = [], PlaintextPassword = None, HashedPassword = [0x24, 0x32, 0x78],
      Groups = [], Email = [], CommonName = [], Surname = [],
      GivenName = [], ScopedAffiliation = []\<rparr>"

text \<open>A stored user without credential.\<close>

definition eve_stored :: User where
  "eve_stored =
     \<lparr>User.Name = ''eve'', PlaintextPassword = None, HashedPassword = [],
      Groups = [], Email = ''eve@example.com'', CommonName = [], Surname = [],
      GivenName = [], ScopedAffiliation = []\<rparr>"

definition bob_body :: User where
  "bob_body =
     \<lparr>User.Name = [], PlaintextPassword = Some ''hunter2'', HashedPassword = [],
      Groups = [''staff''], Email = ''bob@example.com'', CommonName = [], Surname = [],
      GivenName = [], ScopedAffiliation = []\<rparr>"

definition spec_promo_body :: json where
  "spec_promo_body =
     JObject [(''service_provider'', JString ''https://sp.example/meta''),
              (''uri_suffix_as_relay_state'', JBool True)]"

definition promo_body :: json where
  "promo_body =
     JObject [(''service_provider'', JString ''https://sp.example/meta''),
              (''url_suffix_as_relay_state'', JBool True)]"

definition promo :: Shortcut where
  "promo = \<lparr>Shortcut.Name = ''promo'', ServiceProviderID = ''https://sp.example/meta'',
             RelayState = None, URISuffixAsRelayState = True\<rparr>"

section \<open>Properties\<close>

subsection \<open>Responses and the two store implementations\<close>

lemma InternalServerError_response:
  "http_Error (StatusText StatusInternalServerError) StatusInternalServerError =
     \<lparr>StatusCode = 500, Body = Text (''Internal Server Error'' @ [CHR 0x0A])\<rparr>"
  by (simp add: http_Error_def StatusText_def StatusInternalServerError_def)

lemma http_Error_neq_WriteHeader [simp]:
  "http_Error msg code \<noteq> WriteHeader c" "WriteHeader c \<noteq> http_Error msg code"
  by (simp_all add: http_Error_def WriteHeader_def)

lemma MemoryStore_Get_Put:
  "Put MemoryStore st key v = Inr st' \<Longrightarrow> Get MemoryStore st' key = Inr v"
  by (auto simp: MemoryStore_def AList.update_conv')

subsection \<open>Service handlers\<close>

lemma HandlePutService_NoContent:
  assumes "HandlePutService S s param_id dec = (WriteHeader StatusNoContent, s')"
  shows "\<exists>metadata st'. dec = Inr metadata
           \<and> Put S (StoreState s) (services_key param_id)
                 \<lparr>Service.Name = [], Metadata = metadata\<rparr> = Inr st'
           \<and> s' = s\<lparr>StoreState := st',
                    serviceProviders := (serviceProviders s)(EntityID metadata \<mapsto> metadata)\<rparr>"
  using assms
  by (auto simp: HandlePutService_def Let_def split: sum.splits)







text \<open>
  C7. A PUT that succeeds on an id whose stored metadata has another EntityID, present
  in the registry, leaves that old entry in the registry: afterwards the registry maps
  the old EntityID to the old descriptor and the new EntityID to the new one.
\<close>

theorem put_keeps_old_entity_id:
  assumes put: "HandlePutService S s param_id (Inr metadata) = (WriteHeader StatusNoContent, s')"
    and stored: "Get S (StoreState s) (services_key param_id) = Inr old"
    and registered: "serviceProviders s (EntityID (Metadata old)) = Some (Metadata old)"
    and changed: "EntityID metadata \<noteq> EntityID (Metadata old)"
  shows "GetServiceProvider s' (EntityID (Metadata old)) = Inr (Metadata old)
       \<and> GetServiceProvider s' (EntityID metadata) = Inr metadata"
proof -
  from HandlePutService_NoContent [OF put] obtain st' where
    s': "s' = s\<lparr>StoreState := st',
                   serviceProviders := (serviceProviders s)(EntityID metadata \<mapsto> metadata)\<rparr>"
    by auto
  show ?thesis
    using registered changed by (simp add: s' GetServiceProvider_def)
qed

theorem put_keeps_old_entity_id_witness:
  "HandlePutService MemoryStore
       \<lparr>serviceProviders = [EntityID old_meta \<mapsto> old_meta],
        StoreState = [(''/services/app'', \<lparr>Service.Name = [], Metadata = old_meta\<rparr>)],
        logger = []\<rparr> ''app'' (Inr sp_meta)
     = (WriteHeader StatusNoContent,
        \<lparr>serviceProviders = [EntityID old_meta \<mapsto> old_meta, EntityID sp_meta \<mapsto> sp_meta],
         StoreState = [(''/services/app'', \<lparr>Service.Name = [], Metadata = sp_meta\<rparr>)],
         logger = []\<rparr>)
   \<and> EntityID sp_meta \<noteq> EntityID old_meta
   \<and> GetServiceProvider
        \<lparr>serviceProviders = [EntityID old_meta \<mapsto> old_meta, EntityID sp_meta \<mapsto> sp_meta],
         StoreState = [(''/services/app'', \<lparr>Service.Name = [], Metadata = sp_meta\<rparr>)],
         logger = []\<rparr> (EntityID old_meta) = Inr old_meta
   \<and> GetServiceProvider
        \<lparr>serviceProviders = [EntityID old_meta \<mapsto> old_meta, EntityID sp_meta \<mapsto> sp_meta],
         StoreState = [(''/services/app'', \<lparr>Service.Name = [], Metadata = sp_meta\<rparr>)],
         logger = []\<rparr> (EntityID sp_meta) = Inr sp_meta"
proof -
  let ?s = "\<lparr>serviceProviders = [EntityID old_meta \<mapsto> old_meta],
        StoreState = [(''/services/app'', \<lparr>Service.Name = [], Metadata = old_meta\<rparr>)],
        logger = []\<rparr>"
  let ?s' = "\<lparr>serviceProviders = [EntityID old_meta \<mapsto> old_meta, EntityID sp_meta \<mapsto> sp_meta],
         StoreState = [(''/services/app'', \<lparr>Service.Name = [], Metadata = sp_meta\<rparr>)],
         logger = []\<rparr>"
  have put: "HandlePutService MemoryStore ?s ''app'' (Inr sp_meta) = (WriteHeader StatusNoContent, ?s')"
    by (simp add: HandlePutService_def MemoryStore_def services_key_def)
  have stored: "Get MemoryStore (StoreState ?s) (services_key ''app'')
                  = Inr \<lparr>Service.Name = [], Metadata = old_meta\<rparr>"
    by (simp add: MemoryStore_def services_key_def)
  have registered: "serviceProviders ?s (EntityID (Metadata \<lparr>Service.Name = [], Metadata = old_meta\<rparr>))
                  = Some (Metadata \<lparr>Service.Name = [], Metadata = old_meta\<rparr>)"
    by simp
  have changed: "EntityID sp_meta \<noteq> EntityID (Metadata \<lparr>Service.Name = [], Metadata = old_meta\<rparr>)"
    by (simp add: sp_meta_def old_meta_def)
  show ?thesis
    using put changed put_keeps_old_entity_id [OF put stored registered changed] by simp
qed

text \<open>
  C8. In \<open>HandlePutService\<close> and \<open>HandleDeleteService\<close> the registry changes only after
  the store has accepted the write or the delete. If \<open>Put\<close> fails, or the \<open>Get\<close> or the
  \<open>Delete\<close> of a delete fails, the answer is the internal-error response and the registry
  and the store state are as before; and whenever the registry differs after a handler,
  the store call returned success, the new store state is the one it returned and the
  answer is 204.
\<close>

theorem registry_after_store:
  "(Put S (StoreState s) (services_key param_id) \<lparr>Service.Name = [], Metadata = metadata\<rparr> = Inl err
      \<longrightarrow> fst (HandlePutService S s param_id (Inr metadata))
            = http_Error (StatusText StatusInternalServerError) StatusInternalServerError
        \<and> serviceProviders (snd (HandlePutService S s param_id (Inr metadata))) = serviceProviders s
        \<and> StoreState (snd (HandlePutService S s param_id (Inr metadata))) = StoreState s)
   \<and> (Get S (StoreState s) (services_key param_id) = Inl err
      \<longrightarrow> fst (HandleDeleteService S s param_id)
            = http_Error (StatusText StatusInternalServerError) StatusInternalServerError
        \<and> serviceProviders (snd (HandleDeleteService S s param_id)) = serviceProviders s
        \<and> StoreState (snd (HandleDeleteService S s param_id)) = StoreState s)
   \<and> (Delete S (StoreState s) (services_key param_id) = Inl err
      \<longrightarrow> fst (HandleDeleteService S s param_id)
            = http_Error (StatusText StatusInternalServerError) StatusInternalServerError
        \<and> serviceProviders (snd (HandleDeleteService S s param_id)) = serviceProviders s
        \<and> StoreState (snd (HandleDeleteService S s param_id)) = StoreState s)
   \<and> (serviceProviders (snd (HandlePutService S s param_id dec)) \<noteq> serviceProviders s
      \<longrightarrow> (\<exists>m st'. dec = Inr m
             \<and> Put S (StoreState s) (services_key param_id) \<lparr>Service.Name = [], Metadata = m\<rparr> = Inr st'
             \<and> StoreState (snd (HandlePutService S s param_id dec)) = st'
             \<and> fst (HandlePutService S s param_id dec) = WriteHeader StatusNoContent))
   \<and> (serviceProviders (snd (HandleDeleteService S s param_id)) \<noteq> serviceProviders s
      \<longrightarrow> (\<exists>service st'. Get S (StoreState s) (services_key param_id) = Inr service
             \<and> Delete S (StoreState s) (services_key param_id) = Inr st'
             \<and> StoreState (snd (HandleDeleteService S s param_id)) = st'
             \<and> fst (HandleDeleteService S s param_id) = WriteHeader StatusNoContent))"
proof (intro conjI impI)
  assume "serviceProviders (snd (HandlePutService S s param_id dec)) \<noteq> serviceProviders s"
  then show "\<exists>m st'. dec = Inr m
             \<and> Put S (StoreState s) (services_key param_id) \<lparr>Service.Name = [], Metadata = m\<rparr> = Inr st'
             \<and> StoreState (snd (HandlePutService S s param_id dec)) = st'
             \<and> fst (HandlePutService S s param_id dec) = WriteHeader StatusNoContent"
    by (auto simp: HandlePutService_def log_ERROR_def Let_def split: sum.splits)
next
  assume "serviceProviders (snd (HandleDeleteService S s param_id)) \<noteq> serviceProviders s"
  then show "\<exists>service st'. Get S (StoreState s) (services_key param_id) = Inr service
             \<and> Delete S (StoreState s) (services_key param_id) = Inr st'
             \<and> StoreState (snd (HandleDeleteService S s param_id)) = st'
             \<and> fst (HandleDeleteService S s param_id) = WriteHeader StatusNoContent"
    by (auto simp: HandleDeleteService_def log_ERROR_def split: sum.splits)
qed (auto simp: HandlePutService_def HandleDeleteService_def log_ERROR_def Let_def split: sum.splits)

lemma app_put: "HandlePutService MemoryStore app_Server ''app'' (Inr sp_meta)
     = (WriteHeader StatusNoContent,
        \<lparr>serviceProviders = [EntityID old_meta \<mapsto> old_meta, EntityID sp_meta \<mapsto> sp_meta],
         StoreState = [(''/services/app'', \<lparr>Service.Name = [], Metadata = sp_meta\<rparr>)],
         logger = []\<rparr>)"
  by (simp add: HandlePutService_def MemoryStore_def services_key_def app_Server_def)

lemma app_delete: "HandleDeleteService MemoryStore app_Server ''app''
     = (WriteHeader StatusNoContent,
        \<lparr>serviceProviders = Map.empty, StoreState = [], logger = []\<rparr>)"
  by (simp add: HandleDeleteService_def MemoryStore_def services_key_def app_Server_def)

theorem registry_after_store_witness:
  "HandlePutService (UnavailableStore down) (empty_Server ()) ''app'' (Inr sp_meta)
     = (\<lparr>StatusCode = 500, Body = Text (''Internal Server Error'' @ [CHR 0x0A])\<rparr>,
        \<lparr>serviceProviders = Map.empty, StoreState = (),
         logger = [''ERROR: connection refused'']\<rparr>)
   \<and> HandleDeleteService (UnavailableStore down) (empty_Server ()) ''app''
     = (\<lparr>StatusCode = 500, Body = Text (''Internal Server Error'' @ [CHR 0x0A])\<rparr>,
        \<lparr>serviceProviders = Map.empty, StoreState = (),
         logger = [''ERROR: connection refused'']\<rparr>)
   \<and> serviceProviders (snd (HandlePutService MemoryStore app_Server ''app'' (Inr sp_meta)))
       \<noteq> serviceProviders app_Server
   \<and> Put MemoryStore (StoreState app_Server) (services_key ''app'')
         \<lparr>Service.Name = [], Metadata = sp_meta\<rparr>
       = Inr (StoreState (snd (HandlePutService MemoryStore app_Server ''app'' (Inr sp_meta))))
   \<and> fst (HandlePutService MemoryStore app_Server ''app'' (Inr sp_meta))
       = WriteHeader StatusNoContent
   \<and> serviceProviders (snd (HandleDeleteService MemoryStore app_Server ''app''))
       \<noteq> serviceProviders app_Server
   \<and> Delete MemoryStore (StoreState app_Server) (services_key ''app'')
       = Inr (StoreState (snd (HandleDeleteService MemoryStore app_Server ''app'')))
   \<and> fst (HandleDeleteService MemoryStore app_Server ''app'') = WriteHeader StatusNoContent"
proof -
  have put_changes:
    "serviceProviders (snd (HandlePutService MemoryStore app_Server ''app'' (Inr sp_meta)))
       \<noteq> serviceProviders app_Server"
  proof
    assume "serviceProviders (snd (HandlePutService MemoryStore app_Server ''app'' (Inr sp_meta)))
              = serviceProviders app_Server"
    then have "serviceProviders (snd (HandlePutService MemoryStore app_Server ''app'' (Inr sp_meta)))
                 (EntityID sp_meta) = serviceProviders app_Server (EntityID sp_meta)"
      by simp
    then show False
      by (simp add: app_put) (simp add: app_Server_def sp_meta_def old_meta_def)
  qed
  have delete_changes:
    "serviceProviders (snd (HandleDeleteService MemoryStore app_Server ''app''))
       \<noteq> serviceProviders app_Server"
  proof
    assume "serviceProviders (snd (HandleDeleteService MemoryStore app_Server ''app''))
              = serviceProviders app_Server"
    then have "serviceProviders (snd (HandleDeleteService MemoryStore app_Server ''app''))
                 (EntityID old_meta) = serviceProviders app_Server (EntityID old_meta)"
      by simp
    then show False
      by (simp add: app_delete) (simp add: app_Server_def)
  qed
  have un: "Put (UnavailableStore e) st k v = Inl e"
           "Get (UnavailableStore e) st k = Inl e"
           "Delete (UnavailableStore e) st k = Inl e" for e st k and v :: Service
    by (simp_all add: UnavailableStore_def)
  note failing = registry_after_store
     [of "UnavailableStore down" "empty_Server ()" "''app''" sp_meta down "Inr sp_meta"]
  note working = registry_after_store
     [of MemoryStore app_Server "''app''" sp_meta down "Inr sp_meta"]
  have logged: "HandlePutService (UnavailableStore down) (empty_Server ()) ''app'' (Inr sp_meta)
     = (\<lparr>StatusCode = 500, Body = Text (''Internal Server Error'' @ [CHR 0x0A])\<rparr>,
        \<lparr>serviceProviders = Map.empty, StoreState = (),
         logger = [''ERROR: connection refused'']\<rparr>)"
       "HandleDeleteService (UnavailableStore down) (empty_Server ()) ''app''
     = (\<lparr>StatusCode = 500, Body = Text (''Internal Server Error'' @ [CHR 0x0A])\<rparr>,
        \<lparr>serviceProviders = Map.empty, StoreState = (),
         logger = [''ERROR: connection refused'']\<rparr>)"
    by (simp_all add: HandlePutService_def HandleDeleteService_def un log_ERROR_def
          empty_Server_def down_def InternalServerError_response)
  show ?thesis
    using failing working put_changes delete_changes logged
    by (simp add: un)
qed

text \<open>
  C9. \<open>GetServiceProvider\<close> returns \<open>os.ErrNotExist\<close> exactly when the registry has no
  entry for the id. When the store lists one service under \<open>/services/\<close> and its metadata
  has the EntityID \<open>https://sp.example/meta\<close>, \<open>New\<close> returns a server on which the
  lookup of that EntityID returns the stored descriptor and the lookup of any other id
  returns \<open>os.ErrNotExist\<close>.
\<close>

theorem lookup_after_initialize:
  "(GetServiceProvider s serviceProviderID = Inl ErrNotExist
       \<longleftrightarrow> serviceProviders s serviceProviderID = None)
   \<and> (List S st ''/services/'' = Inr [serviceName]
        \<and> Get S st (services_key serviceName) = Inr service
        \<and> EntityID (Metadata service) = ''https://sp.example/meta''
      \<longrightarrow> (\<exists>s'. New S st = Inr s'
            \<and> GetServiceProvider s' ''https://sp.example/meta'' = Inr (Metadata service)
            \<and> (\<forall>other. other \<noteq> ''https://sp.example/meta''
                  \<longrightarrow> GetServiceProvider s' other = Inl ErrNotExist)))"
  by (auto simp: GetServiceProvider_def New_def initializeServices_def empty_Server_def
           split: option.splits)

theorem lookup_after_initialize_witness:
  "List MemoryStore [(''/services/app'', \<lparr>Service.Name = [], Metadata = sp_meta\<rparr>)] ''/services/''
     = Inr [''app'']
   \<and> New MemoryStore [(''/services/app'', \<lparr>Service.Name = [], Metadata = sp_meta\<rparr>)]
     = Inr \<lparr>serviceProviders = [''https://sp.example/meta'' \<mapsto> sp_meta],
            StoreState = [(''/services/app'', \<lparr>Service.Name = [], Metadata = sp_meta\<rparr>)],
            logger = []\<rparr>
   \<and> GetServiceProvider
        \<lparr>serviceProviders = [''https://sp.example/meta'' \<mapsto> sp_meta],
         StoreState = [(''/services/app'', \<lparr>Service.Name = [], Metadata = sp_meta\<rparr>)],
         logger = []\<rparr> ''https://sp.example/meta'' = Inr sp_meta
   \<and> GetServiceProvider
        \<lparr>serviceProviders = [''https://sp.example/meta'' \<mapsto> sp_meta],
         StoreState = [(''/services/app'', \<lparr>Service.Name = [], Metadata = sp_meta\<rparr>)],
         logger = []\<rparr> ''https://other.example/meta'' = Inl ErrNotExist"
proof -
  let ?st = "[(''/services/app'', \<lparr>Service.Name = [], Metadata = sp_meta\<rparr>)]"
  have l: "List MemoryStore ?st ''/services/'' = Inr [''app'']"
    by (simp add: MemoryStore_def)
  have g: "Get MemoryStore ?st (services_key ''app'') = Inr \<lparr>Service.Name = [], Metadata = sp_meta\<rparr>"
    by (simp add: MemoryStore_def services_key_def)
  have e: "EntityID (Metadata \<lparr>Service.Name = [], Metadata = sp_meta\<rparr>) = ''https://sp.example/meta''"
    by (simp add: sp_meta_def)
  have n: "New MemoryStore ?st
     = Inr \<lparr>serviceProviders = [''https://sp.example/meta'' \<mapsto> sp_meta],
            StoreState = ?st, logger = []\<rparr>"
    by (simp add: New_def initializeServices_def empty_Server_def MemoryStore_def services_key_def
                  sp_meta_def)
  show ?thesis
    using l g e n
      lookup_after_initialize [of _ _ MemoryStore ?st "''app''" "\<lparr>Service.Name = [], Metadata = sp_meta\<rparr>"]
    by (simp add: GetServiceProvider_def)
qed

subsection \<open>Reading one resource\<close>

text \<open>
  C6. Whatever error \<open>Store.Get\<close> returns, \<open>ErrNotFound\<close> included, the three handlers
  for one resource write the same response: status 500 with the status text. The
  response does not depend on the error.
\<close>

theorem get_not_found_is_internal_error:
  "(Get SS (StoreState s1) (services_key param_id) = Inl err
      \<longrightarrow> fst (HandleGetService SS s1 param_id)
            = http_Error (StatusText StatusInternalServerError) StatusInternalServerError)
   \<and> (Get SU (StoreState s2) (users_key param_id) = Inl err
      \<longrightarrow> fst (HandleGetUser SU s2 param_id)
            = http_Error (StatusText StatusInternalServerError) StatusInternalServerError)
   \<and> (Get SC (StoreState s3) (shortcuts_key param_id) = Inl err
      \<longrightarrow> fst (HandleGetShortcut SC s3 param_id)
            = http_Error (StatusText StatusInternalServerError) StatusInternalServerError)"
  by (simp add: HandleGetService_def HandleGetUser_def HandleGetShortcut_def)

theorem get_not_found_is_internal_error_witness:
  "Get MemoryStore (StoreState (empty_Server [])) (services_key ''nobody'') = (Inl ErrNotFound :: error + Service)
   \<and> Get (UnavailableStore down) (StoreState (empty_Server ())) (services_key ''nobody'') = (Inl down :: error + Service)
   \<and> down \<noteq> ErrNotFound
   \<and> fst (HandleGetService MemoryStore (empty_Server []) ''nobody'')
       = \<lparr>StatusCode = 500, Body = Text (''Internal Server Error'' @ [CHR 0x0A])\<rparr>
   \<and> fst (HandleGetService (UnavailableStore down) (empty_Server ()) ''nobody'')
       = \<lparr>StatusCode = 500, Body = Text (''Internal Server Error'' @ [CHR 0x0A])\<rparr>
   \<and> fst (HandleGetUser MemoryStore (empty_Server []) ''nobody'')
       = \<lparr>StatusCode = 500, Body = Text (''Internal Server Error'' @ [CHR 0x0A])\<rparr>
   \<and> fst (HandleGetUser (UnavailableStore down) (empty_Server ()) ''nobody'')
       = \<lparr>StatusCode = 500, Body = Text (''Internal Server Error'' @ [CHR 0x0A])\<rparr>
   \<and> fst (HandleGetShortcut MemoryStore (empty_Server []) ''nobody'')
       = \<lparr>StatusCode = 500, Body = Text (''Internal Server Error'' @ [CHR 0x0A])\<rparr>
   \<and> fst (HandleGetShortcut (UnavailableStore down) (empty_Server ()) ''nobody'')
       = \<lparr>StatusCode = 500, Body = Text (''Internal Server Error'' @ [CHR 0x0A])\<rparr>"
proof -
  have nf: "Get MemoryStore [] k = Inl ErrNotFound" for k
    by (simp add: MemoryStore_def)
  have st: "StoreState (empty_Server x) = x" for x
    by (simp add: empty_Server_def)
  have un: "Get (UnavailableStore down) st k = Inl down" for k st
    by (simp add: UnavailableStore_def)
  have d: "down \<noteq> ErrNotFound" by (simp add: down_def)
  note a = get_not_found_is_internal_error
     [of MemoryStore "empty_Server []" "''nobody''" ErrNotFound MemoryStore "empty_Server []"
         MemoryStore "empty_Server []"]
  note b = get_not_found_is_internal_error
     [of "UnavailableStore down" "empty_Server ()" "''nobody''" down "UnavailableStore down"
         "empty_Server ()" "UnavailableStore down" "empty_Server ()"]
  show ?thesis
    using a b d by (simp add: st nf un InternalServerError_response)
qed

subsection \<open>User handlers\<close>

lemma HandlePutUser_NoContent:
  assumes "HandlePutUser S G s param_id dec = (WriteHeader StatusNoContent, s')"
  shows "\<exists>body_user user st'. dec = Inr body_user
           \<and> credential S G s param_id (body_user\<lparr>User.Name := param_id\<rparr>) = Inr user
           \<and> Put S (StoreState s) (users_key param_id) (user\<lparr>PlaintextPassword := None\<rparr>) = Inr st'
           \<and> s' = s\<lparr>StoreState := st'\<rparr>"
  using assms
  by (auto simp: HandlePutUser_def split: sum.splits)

lemma credential_only_HashedPassword:
  assumes "credential S G s param_id user = Inr user'"
  shows "user' = user\<lparr>HashedPassword := HashedPassword user'\<rparr>"
  using assms
  by (auto simp: credential_def split: option.splits sum.splits if_splits)

text \<open>
  C10. The record that a successful \<open>HandlePutUser\<close> gives to \<open>Store.Put\<close> has the name
  from the URL, no plaintext password, some hashed password, and every other field
  (\<open>Groups\<close>, \<open>Email\<close>, \<open>CommonName\<close>, \<open>Surname\<close>, \<open>GivenName\<close>, \<open>ScopedAffiliation\<close>) as
  the decoded body has it: nothing of a record stored before is merged in.
\<close>

theorem put_user_fields_from_body:
  assumes put: "HandlePutUser S G s param_id (Inr body_user) = (WriteHeader StatusNoContent, s')"
  shows "\<exists>hashed. Put S (StoreState s) (users_key param_id)
            \<lparr>User.Name = param_id, PlaintextPassword = None, HashedPassword = hashed,
             Groups = Groups body_user, Email = Email body_user,
             CommonName = CommonName body_user, Surname = Surname body_user,
             GivenName = GivenName body_user,
             ScopedAffiliation = ScopedAffiliation body_user\<rparr>
          = Inr (StoreState s')"
proof -
  from HandlePutUser_NoContent [OF put] obtain user st' where
    c: "credential S G s param_id (body_user\<lparr>User.Name := param_id\<rparr>) = Inr user"
    and p: "Put S (StoreState s) (users_key param_id) (user\<lparr>PlaintextPassword := None\<rparr>) = Inr st'"
    and s': "s' = s\<lparr>StoreState := st'\<rparr>"
    by auto
  have "user\<lparr>PlaintextPassword := None\<rparr> =
      \<lparr>User.Name = param_id, PlaintextPassword = None, HashedPassword = HashedPassword user,
       Groups = Groups body_user, Email = Email body_user,
       CommonName = CommonName body_user, Surname = Surname body_user,
       GivenName = GivenName body_user,
       ScopedAffiliation = ScopedAffiliation body_user\<rparr>"
    using credential_only_HashedPassword [OF c]
    by (cases user, cases body_user) simp
  with p s' show ?thesis by auto
qed

theorem put_user_fields_from_body_witness:
  "HandlePutUser MemoryStore bcrypt_demo (empty_Server [(''/users/alice'', alice_stored)])
       ''alice'' (Inr alice_body)
     = (WriteHeader StatusNoContent,
        empty_Server [(''/users/alice'',
           \<lparr>User.Name = ''alice'', PlaintextPassword = None, HashedPassword = [0x24, 0x32, 0x61],
            Groups = [], Email = ''alice@example.com'', CommonName = [], Surname = [],
            GivenName = [], ScopedAffiliation = []\<rparr>)])
   \<and> (\<exists>hashed. Put MemoryStore [(''/users/alice'', alice_stored)] (users_key ''alice'')
            \<lparr>User.Name = ''alice'', PlaintextPassword = None, HashedPassword = hashed,
             Groups = [], Email = ''alice@example.com'', CommonName = [], Surname = [],
             GivenName = [], ScopedAffiliation = []\<rparr>
          = Inr [(''/users/alice'',
           \<lparr>User.Name = ''alice'', PlaintextPassword = None, HashedPassword = [0x24, 0x32, 0x61],
            Groups = [], Email = ''alice@example.com'', CommonName = [], Surname = [],
            GivenName = [], ScopedAffiliation = []\<rparr>)])"
proof -
  have put: "HandlePutUser MemoryStore bcrypt_demo (empty_Server [(''/users/alice'', alice_stored)])
       ''alice'' (Inr alice_body)
     = (WriteHeader StatusNoContent,
        empty_Server [(''/users/alice'',
           \<lparr>User.Name = ''alice'', PlaintextPassword = None, HashedPassword = [0x24, 0x32, 0x61],
            Groups = [], Email = ''alice@example.com'', CommonName = [], Surname = [],
            GivenName = [], ScopedAffiliation = []\<rparr>)])"
    by (simp add: HandlePutUser_def credential_def MemoryStore_def users_key_def empty_Server_def
          alice_body_def alice_stored_def)
  show ?thesis
    using put put_user_fields_from_body [OF put]
    by (simp add: empty_Server_def alice_body_def)
qed

text \<open>
  What \<open>HandlePutUser\<close> does with a body without plaintext password, by the outcome of
  the fetch of the stored user. If a record exists, the record put has the stored
  \<open>HashedPassword\<close>, whatever the body carried. If the fetch reports \<open>ErrNotFound\<close>, the
  record put keeps the \<open>HashedPassword\<close> decoded from the body. On any other fetch error
  the answer is the internal-error response and the store state is as before.
\<close>

theorem put_user_without_password:
  assumes omitted: "PlaintextPassword body_user = None"
  shows "(Get S (StoreState s) (users_key param_id) = Inr existingUser
      \<longrightarrow> HandlePutUser S G s param_id (Inr body_user)
          = (case Put S (StoreState s) (users_key param_id)
                    (body_user\<lparr>User.Name := param_id,
                                HashedPassword := HashedPassword existingUser\<rparr>) of
               Inl err \<Rightarrow>
                 (http_Error (StatusText StatusInternalServerError) StatusInternalServerError,
                  log_ERROR err s)
             | Inr st' \<Rightarrow> (WriteHeader StatusNoContent, s\<lparr>StoreState := st'\<rparr>)))
   \<and> (Get S (StoreState s) (users_key param_id) = Inl ErrNotFound
      \<longrightarrow> HandlePutUser S G s param_id (Inr body_user)
          = (case Put S (StoreState s) (users_key param_id)
                    (body_user\<lparr>User.Name := param_id\<rparr>) of
               Inl err \<Rightarrow>
                 (http_Error (StatusText StatusInternalServerError) StatusInternalServerError,
                  log_ERROR err s)
             | Inr st' \<Rightarrow> (WriteHeader StatusNoContent, s\<lparr>StoreState := st'\<rparr>)))
   \<and> (Get S (StoreState s) (users_key param_id) = Inl err \<and> err \<noteq> ErrNotFound
      \<longrightarrow> HandlePutUser S G s param_id (Inr body_user)
            = (http_Error (StatusText StatusInternalServerError) StatusInternalServerError,
               log_ERROR err s)
        \<and> StoreState (snd (HandlePutUser S G s param_id (Inr body_user))) = StoreState s)"
proof -
  have same: "u\<lparr>PlaintextPassword := None\<rparr> = u" if "PlaintextPassword u = None" for u :: User
    using that by (cases u) simp
  show ?thesis
    using omitted
    by (simp add: HandlePutUser_def credential_def same log_ERROR_def)
qed

theorem put_user_without_password_witness:
  "PlaintextPassword alice_body = None
   \<and> Get MemoryStore [(''/users/alice'', alice_stored)] (users_key ''alice'') = Inr alice_stored
   \<and> HandlePutUser MemoryStore bcrypt_demo (empty_Server [(''/users/alice'', alice_stored)])
         ''alice'' (Inr alice_body)
       = (WriteHeader StatusNoContent,
          empty_Server [(''/users/alice'',
            alice_body\<lparr>User.Name := ''alice'', HashedPassword := [0x24, 0x32, 0x61]\<rparr>)])
   \<and> Get MemoryStore [] (users_key ''alice'') = (Inl ErrNotFound :: error + User)
   \<and> HandlePutUser MemoryStore bcrypt_demo (empty_Server []) ''alice'' (Inr alice_body)
       = (WriteHeader StatusNoContent,
          empty_Server [(''/users/alice'', alice_body\<lparr>User.Name := ''alice''\<rparr>)])
   \<and> Get (UnavailableStore down) () (users_key ''alice'') = (Inl down :: error + User)
   \<and> down \<noteq> ErrNotFound
   \<and> HandlePutUser (UnavailableStore down) bcrypt_demo (empty_Server ()) ''alice''
         (Inr alice_body)
       = (\<lparr>StatusCode = 500, Body = Text (''Internal Server Error'' @ [CHR 0x0A])\<rparr>,
          \<lparr>serviceProviders = Map.empty, StoreState = (),
           logger = [''ERROR: connection refused'']\<rparr>)"
proof -
  have omitted: "PlaintextPassword alice_body = None"
    by (simp add: alice_body_def)
  have st: "StoreState (empty_Server x) = x" for x
    by (simp add: empty_Server_def)
  have found: "Get MemoryStore [(''/users/alice'', alice_stored)] (users_key ''alice'')
                 = Inr alice_stored"
    by (simp add: MemoryStore_def users_key_def)
  have absent: "Get MemoryStore [] (users_key ''alice'') = (Inl ErrNotFound :: error + User)"
    by (simp add: MemoryStore_def)
  have failing: "Get (UnavailableStore e) x (users_key ''alice'') = (Inl e :: error + User)" for e x
    by (simp add: UnavailableStore_def)
  have d: "down \<noteq> ErrNotFound" by (simp add: down_def)
  have put: "Put MemoryStore [(''/users/alice'', alice_stored)] (users_key ''alice'') u
               = Inr [(''/users/alice'', u)]"
            "Put MemoryStore [] (users_key ''alice'') u = Inr [(''/users/alice'', u)]" for u :: User
    by (simp_all add: MemoryStore_def users_key_def)
  note a = put_user_without_password
    [OF omitted, of MemoryStore "empty_Server [(''/users/alice'', alice_stored)]" "''alice''"
       alice_stored bcrypt_demo down]
  note b = put_user_without_password
    [OF omitted, of MemoryStore "empty_Server []" "''alice''" alice_stored bcrypt_demo down]
  note c = put_user_without_password
    [OF omitted, of "UnavailableStore down" "empty_Server ()" "''alice''" alice_stored
       bcrypt_demo down]
  have hashed: "HashedPassword alice_stored = [0x24, 0x32, 0x61]"
    by (simp add: alice_stored_def)
  have logged: "log_ERROR down \<lparr>serviceProviders = Map.empty, StoreState = (), logger = []\<rparr>
     = \<lparr>serviceProviders = Map.empty, StoreState = (), logger = [''ERROR: connection refused'']\<rparr>"
    by (simp add: log_ERROR_def down_def)
  show ?thesis
    using a b c omitted d
    by (simp add: st found absent failing put hashed logged InternalServerError_response
          empty_Server_def)
qed

text \<open>
  C3. For a body without plaintext password and with no record stored, the claim has the
  new record stored with no credential, and the comment of \<open>HandlePutUser\<close> has
  \<open>HashedPassword\<close> retain its stored value. The handler stores the \<open>hashed_password\<close>
  that the body carried: a PUT of \<open>/users/eve\<close> on an empty store with the body
  \<open>forged_body\<close> is answered 204 and stores its three bytes as the credential. With a
  record stored, the same body is stored with the stored hash, here the empty one.
\<close>

theorem put_user_stores_client_hash:
  "PlaintextPassword forged_body = None
   \<and> Get MemoryStore (StoreState (empty_Server [])) (users_key ''eve'')
       = (Inl ErrNotFound :: error + User)
   \<and> HandlePutUser MemoryStore bcrypt_demo (empty_Server []) ''eve'' (Inr forged_body)
       = (WriteHeader StatusNoContent,
          empty_Server [(''/users/eve'', forged_body\<lparr>User.Name := ''eve''\<rparr>)])
   \<and> HashedPassword (forged_body\<lparr>User.Name := ''eve''\<rparr>) = [0x24, 0x32, 0x78]
   \<and> HashedPassword (forged_body\<lparr>User.Name := ''eve''\<rparr>) \<noteq> []
   \<and> HashedPassword eve_stored = []
   \<and> HandlePutUser MemoryStore bcrypt_demo (empty_Server [(''/users/eve'', eve_stored)]) ''eve''
         (Inr forged_body)
       = (WriteHeader StatusNoContent,
          empty_Server [(''/users/eve'',
            forged_body\<lparr>User.Name := ''eve'', HashedPassword := []\<rparr>)])"
  by (simp add: HandlePutUser_def credential_def MemoryStore_def users_key_def empty_Server_def
        forged_body_def eve_stored_def)

lemma keys_omitempty: "map fst (omitempty tag v) = (if v = [] then [] else [tag])"
  by (simp add: omitempty_def)

lemma mem_optional_key: "x \<in> set (if c then [] else [k]) \<longleftrightarrow> \<not> c \<and> x = k"
  by simp

lemma json_User_keys:
  assumes "json_User u = JObject members"
  shows "map fst members =
     [''name'']
     @ (if PlaintextPassword u = None then [] else [''password''])
     @ (if HashedPassword u = [] then [] else [''hashed_password''])
     @ (if Groups u = [] then [] else [''groups''])
     @ (if Email u = [] then [] else [''email''])
     @ (if CommonName u = [] then [] else [''common_name''])
     @ (if Surname u = [] then [] else [''surname''])
     @ (if GivenName u = [] then [] else [''given_name''])
     @ (if ScopedAffiliation u = [] then [] else [''scoped_affiliation''])"
proof -
  have pw: "map fst (case PlaintextPassword u of None \<Rightarrow> [] | Some p \<Rightarrow> [(''password'', JString p)])
              = (if PlaintextPassword u = None then [] else [''password''])"
    by (cases "PlaintextPassword u") simp_all
  have hp: "map fst (if HashedPassword u = [] then []
                     else [(''hashed_password'', JString (EncodeToString (HashedPassword u)))])
              = (if HashedPassword u = [] then [] else [''hashed_password''])"
    by (cases "HashedPassword u = []") simp_all
  have gr: "map fst (if Groups u = [] then [] else [(''groups'', JArray (map JString (Groups u)))])
              = (if Groups u = [] then [] else [''groups''])"
    by (cases "Groups u = []") simp_all
  from assms have "members =
     [(''name'', JString (User.Name u))]
     @ (case PlaintextPassword u of None \<Rightarrow> [] | Some p \<Rightarrow> [(''password'', JString p)])
     @ (if HashedPassword u = [] then []
        else [(''hashed_password'', JString (EncodeToString (HashedPassword u)))])
     @ (if Groups u = [] then [] else [(''groups'', JArray (map JString (Groups u)))])
     @ omitempty ''email'' (Email u)
     @ omitempty ''common_name'' (CommonName u)
     @ omitempty ''surname'' (Surname u)
     @ omitempty ''given_name'' (GivenName u)
     @ omitempty ''scoped_affiliation'' (ScopedAffiliation u)"
    by (simp only: json_User_def json.inject)
  then show ?thesis
    by (simp only: map_append pw hp gr keys_omitempty list.map fst_conv)
qed

lemma json_User_members:
  assumes "json_User u = JObject members"
  shows "(''hashed_password'' \<in> fst ` set members \<longleftrightarrow> HashedPassword u \<noteq> [])
       \<and> (''password'' \<in> fst ` set members \<longleftrightarrow> PlaintextPassword u \<noteq> None)"
proof -
  have "fst ` set members = set (map fst members)" by simp
  then show ?thesis
    unfolding json_User_keys [OF assms] set_append Un_iff mem_optional_key
    by simp
qed


lemma json_User_is_object: "\<exists>members. json_User u = JObject members"
  by (simp add: json_User_def)

text \<open>
  C4. The record that a successful \<open>HandlePutUser\<close> gives to \<open>Store.Put\<close> has no plaintext
  password. The object that \<open>HandleGetUser\<close> writes for a stored user has no
  \<open>hashed_password\<close> member, and no \<open>password\<close> member when the stored record has no
  plaintext password. So over a store in which \<open>Get\<close> after a successful \<open>Put\<close> returns the
  value put, a GET after a PUT writes neither member.
\<close>

theorem user_passwords_not_exposed:
  "(HandlePutUser S G s param_id dec = (WriteHeader StatusNoContent, s')
      \<longrightarrow> (\<exists>stored. Put S (StoreState s) (users_key param_id) stored = Inr (StoreState s')
              \<and> PlaintextPassword stored = None))
   \<and> (Get S (StoreState t) (users_key param_id) = Inr stored
      \<longrightarrow> (\<exists>members.
             fst (HandleGetUser S t param_id) = Encode (JSONBody (JObject members))
             \<and> JObject members = json_User (stored\<lparr>HashedPassword := []\<rparr>)
             \<and> ''hashed_password'' \<notin> fst ` set members
             \<and> (PlaintextPassword stored = None \<longrightarrow> ''password'' \<notin> fst ` set members)))
   \<and> (HandlePutUser S G s param_id dec = (WriteHeader StatusNoContent, s')
        \<and> (\<forall>st key v st'. Put S st key v = Inr st' \<longrightarrow> Get S st' key = Inr v)
      \<longrightarrow> (\<exists>members.
             fst (HandleGetUser S s' param_id) = Encode (JSONBody (JObject members))
             \<and> ''hashed_password'' \<notin> fst ` set members
             \<and> ''password'' \<notin> fst ` set members))"
proof (intro conjI impI)
  assume put: "HandlePutUser S G s param_id dec = (WriteHeader StatusNoContent, s')"
  from HandlePutUser_NoContent [OF put]
  show "\<exists>stored. Put S (StoreState s) (users_key param_id) stored = Inr (StoreState s')
          \<and> PlaintextPassword stored = None"
    by force
next
  assume g: "Get S (StoreState t) (users_key param_id) = Inr stored"
  obtain members where m: "json_User (stored\<lparr>HashedPassword := []\<rparr>) = JObject members"
    using json_User_is_object by blast
  have "fst (HandleGetUser S t param_id) = Encode (JSONBody (JObject members))"
    by (simp add: HandleGetUser_def g m)
  moreover have "''hashed_password'' \<notin> fst ` set members"
    using json_User_members [OF m] by simp
  moreover have "PlaintextPassword stored = None \<longrightarrow> ''password'' \<notin> fst ` set members"
    using json_User_members [OF m] by simp
  ultimately show "\<exists>members.
             fst (HandleGetUser S t param_id) = Encode (JSONBody (JObject members))
             \<and> JObject members = json_User (stored\<lparr>HashedPassword := []\<rparr>)
             \<and> ''hashed_password'' \<notin> fst ` set members
             \<and> (PlaintextPassword stored = None \<longrightarrow> ''password'' \<notin> fst ` set members)"
    using m by auto
next
  assume a: "HandlePutUser S G s param_id dec = (WriteHeader StatusNoContent, s')
        \<and> (\<forall>st key v st'. Put S st key v = Inr st' \<longrightarrow> Get S st' key = Inr v)"
  from a HandlePutUser_NoContent obtain user st' where
    p: "Put S (StoreState s) (users_key param_id) (user\<lparr>PlaintextPassword := None\<rparr>) = Inr st'"
    and s': "s' = s\<lparr>StoreState := st'\<rparr>"
    by blast
  from a p have g: "Get S st' (users_key param_id) = Inr (user\<lparr>PlaintextPassword := None\<rparr>)"
    by blast
  obtain members where
    m: "json_User (user\<lparr>PlaintextPassword := None, HashedPassword := []\<rparr>) = JObject members"
    using json_User_is_object by blast
  have "fst (HandleGetUser S s' param_id) = Encode (JSONBody (JObject members))"
    by (simp add: HandleGetUser_def s' g m)
  moreover have "''hashed_password'' \<notin> fst ` set members" "''password'' \<notin> fst ` set members"
    using json_User_members [OF m] by simp_all
  ultimately show "\<exists>members.
             fst (HandleGetUser S s' param_id) = Encode (JSONBody (JObject members))
             \<and> ''hashed_password'' \<notin> fst ` set members
             \<and> ''password'' \<notin> fst ` set members"
    by blast
qed

theorem user_passwords_not_exposed_witness:
  "HandlePutUser MemoryStore bcrypt_demo (empty_Server []) ''bob'' (Inr bob_body)
     = (WriteHeader StatusNoContent,
        empty_Server [(''/users/bob'',
          bob_body\<lparr>User.Name := ''bob'', HashedPassword := [0x24, 0x32, 0x62],
                    PlaintextPassword := None\<rparr>)])
   \<and> fst (HandleGetUser MemoryStore
        (empty_Server [(''/users/bob'',
          bob_body\<lparr>User.Name := ''bob'', HashedPassword := [0x24, 0x32, 0x62],
                    PlaintextPassword := None\<rparr>)]) ''bob'')
     = Encode (JSONBody (JObject
         [(''name'', JString ''bob''), (''groups'', JArray [JString ''staff'']),
          (''email'', JString ''bob@example.com'')]))
   \<and> (\<exists>stored. Put MemoryStore (StoreState (empty_Server [])) (users_key ''bob'') stored
          = Inr [(''/users/bob'',
                  bob_body\<lparr>User.Name := ''bob'', HashedPassword := [0x24, 0x32, 0x62],
                            PlaintextPassword := None\<rparr>)]
        \<and> PlaintextPassword stored = None)
   \<and> (\<exists>members.
         fst (HandleGetUser MemoryStore
           (empty_Server [(''/users/bob'',
             bob_body\<lparr>User.Name := ''bob'', HashedPassword := [0x24, 0x32, 0x62],
                       PlaintextPassword := None\<rparr>)]) ''bob'')
           = Encode (JSONBody (JObject members))
         \<and> ''hashed_password'' \<notin> fst ` set members
         \<and> ''password'' \<notin> fst ` set members)"
proof -
  let ?u = "bob_body\<lparr>User.Name := ''bob'', HashedPassword := [0x24, 0x32, 0x62],
                      PlaintextPassword := None\<rparr>"
  have put: "HandlePutUser MemoryStore bcrypt_demo (empty_Server []) ''bob'' (Inr bob_body)
     = (WriteHeader StatusNoContent, empty_Server [(''/users/bob'', ?u)])"
    by (simp add: HandlePutUser_def credential_def MemoryStore_def users_key_def empty_Server_def
          bob_body_def bcrypt_demo_def)
  have contract: "\<forall>st key (v :: User) st'.
      Put MemoryStore st key v = Inr st' \<longrightarrow> Get MemoryStore st' key = Inr v"
    using MemoryStore_Get_Put by blast
  have get: "fst (HandleGetUser MemoryStore (empty_Server [(''/users/bob'', ?u)]) ''bob'')
     = Encode (JSONBody (JObject
         [(''name'', JString ''bob''), (''groups'', JArray [JString ''staff'']),
          (''email'', JString ''bob@example.com'')]))"
    by (simp add: HandleGetUser_def MemoryStore_def users_key_def empty_Server_def
          json_User_def omitempty_def bob_body_def)
  have st: "StoreState (empty_Server x) = x" for x
    by (simp add: empty_Server_def)
  note inst = user_passwords_not_exposed
    [of MemoryStore bcrypt_demo "empty_Server []" "''bob''" "Inr bob_body"
        "empty_Server [(''/users/bob'', ?u)]" "empty_Server [(''/users/bob'', ?u)]" ?u]
  have a: "\<exists>stored. Put MemoryStore (StoreState (empty_Server [])) (users_key ''bob'') stored
          = Inr (StoreState (empty_Server [(''/users/bob'', ?u)]))
        \<and> PlaintextPassword stored = None"
    using inst [THEN conjunct1, THEN mp, OF put] .
  have b: "\<exists>members.
         fst (HandleGetUser MemoryStore (empty_Server [(''/users/bob'', ?u)]) ''bob'')
           = Encode (JSONBody (JObject members))
         \<and> ''hashed_password'' \<notin> fst ` set members
         \<and> ''password'' \<notin> fst ` set members"
    using inst [THEN conjunct2, THEN conjunct2, THEN mp, OF conjI [OF put contract]] .
  from a have a': "\<exists>stored. Put MemoryStore (StoreState (empty_Server [])) (users_key ''bob'') stored
          = Inr [(''/users/bob'', ?u)] \<and> PlaintextPassword stored = None"
    by (simp only: st)
  show ?thesis
    using put get a' b by (intro conjI)
qed

subsection \<open>Shortcuts\<close>

lemma Decode_spec_promo_body:
  "Decode_Shortcut (Some spec_promo_body)
     = Inr \<lparr>Shortcut.Name = [], ServiceProviderID = ''https://sp.example/meta'',
            RelayState = None, URISuffixAsRelayState = False\<rparr>"
  by code_simp

lemma Decode_promo_body:
  "Decode_Shortcut (Some promo_body)
     = Inr \<lparr>Shortcut.Name = [], ServiceProviderID = ''https://sp.example/meta'',
            RelayState = None, URISuffixAsRelayState = True\<rparr>"
  by code_simp

lemma MemoryStore_Put: "Put MemoryStore st key v = Inr (AList.update key v st)"
  by (simp add: MemoryStore_def)

lemma MemoryStore_Get_update: "Get MemoryStore (AList.update key v st) key = Inr v"
  by (simp add: MemoryStore_def AList.update_conv')

lemma HandlePutShortcut_NoContent:
  assumes "HandlePutShortcut S s param_id dec = (WriteHeader StatusNoContent, s')"
  shows "\<exists>body_shortcut. dec = Inr body_shortcut
           \<and> Put S (StoreState s) (shortcuts_key param_id)
                 (body_shortcut\<lparr>Shortcut.Name := param_id\<rparr>) = Inr (StoreState s')"
  using assms
  by (auto simp: HandlePutShortcut_def split: sum.splits)

text \<open>
  The scenario of claim C5 as the spec writes it, with the key
  \<open>uri_suffix_as_relay_state\<close>: no tag of \<open>Shortcut\<close> matches that key (the tag is
  \<open>url_suffix_as_relay_state\<close>), the decoder skips it, and the login is served with the
  empty relay state.
\<close>

theorem idp_initiated_relay_state_counterexample:
  "fst (HandlePutShortcut MemoryStore (empty_Server []) ''promo''
          (Decode_Shortcut (Some spec_promo_body))) = WriteHeader StatusNoContent
   \<and> fst (HandleIDPInitiated MemoryStore
          (snd (HandlePutShortcut MemoryStore (empty_Server []) ''promo''
                  (Decode_Shortcut (Some spec_promo_body))))
          ''promo'' ''campaign42'')
       = ServeIDPInitiated ''https://sp.example/meta'' []
   \<and> fst (HandleIDPInitiated MemoryStore
          (snd (HandlePutShortcut MemoryStore (empty_Server []) ''promo''
                  (Decode_Shortcut (Some spec_promo_body))))
          ''promo'' ''campaign42'')
       \<noteq> ServeIDPInitiated ''https://sp.example/meta'' ''campaign42''"
  by (simp add: Decode_spec_promo_body HandlePutShortcut_def HandleIDPInitiated_def
        MemoryStore_Put MemoryStore_Get_update relayState_of_def)

text \<open>
  C5, amended. When \<open>HandleIDPInitiated\<close> fetches the shortcut, it calls
  \<open>ServeIDPInitiated\<close> with the shortcut's \<open>ServiceProviderID\<close> and with the fixed
  \<open>RelayState\<close> if there is one, else the \<open>state\<close> path segment if
  \<open>URISuffixAsRelayState\<close> is set, else the empty string. After a PUT of \<open>/shortcuts/promo\<close>
  with \<open>service_provider\<close> \<open>https://sp.example/meta\<close> and \<open>url_suffix_as_relay_state\<close> true
  into a memory store, the login at \<open>/login/promo/campaign42\<close> is served with that
  service provider and the relay state \<open>campaign42\<close>.
\<close>

theorem idp_initiated_relay_state:
  "(Get S (StoreState s) (shortcuts_key shortcutName) = Inr shortcut
      \<and> RelayState shortcut = Some fixed
      \<longrightarrow> fst (HandleIDPInitiated S s shortcutName state)
            = ServeIDPInitiated (ServiceProviderID shortcut) fixed)
   \<and> (Get S (StoreState s) (shortcuts_key shortcutName) = Inr shortcut
      \<and> RelayState shortcut = None \<and> URISuffixAsRelayState shortcut
      \<longrightarrow> fst (HandleIDPInitiated S s shortcutName state)
            = ServeIDPInitiated (ServiceProviderID shortcut) state)
   \<and> (Get S (StoreState s) (shortcuts_key shortcutName) = Inr shortcut
      \<and> RelayState shortcut = None \<and> \<not> URISuffixAsRelayState shortcut
      \<longrightarrow> fst (HandleIDPInitiated S s shortcutName state)
            = ServeIDPInitiated (ServiceProviderID shortcut) [])
   \<and> fst (HandlePutShortcut MemoryStore t ''promo'' (Decode_Shortcut (Some promo_body)))
       = WriteHeader StatusNoContent
   \<and> fst (HandleIDPInitiated MemoryStore
          (snd (HandlePutShortcut MemoryStore t ''promo'' (Decode_Shortcut (Some promo_body))))
          ''promo'' ''campaign42'')
       = ServeIDPInitiated ''https://sp.example/meta'' ''campaign42''"
  by (simp add: Decode_promo_body HandlePutShortcut_def HandleIDPInitiated_def
        MemoryStore_Put MemoryStore_Get_update relayState_of_def)

theorem idp_initiated_relay_state_witness:
  "Get MemoryStore [(''/shortcuts/fixed'', promo\<lparr>RelayState := Some ''home''\<rparr>)]
       (shortcuts_key ''fixed'') = Inr (promo\<lparr>RelayState := Some ''home''\<rparr>)
   \<and> fst (HandleIDPInitiated MemoryStore
           (empty_Server [(''/shortcuts/fixed'', promo\<lparr>RelayState := Some ''home''\<rparr>)])
           ''fixed'' ''campaign42'')
       = ServeIDPInitiated ''https://sp.example/meta'' ''home''
   \<and> Get MemoryStore [(''/shortcuts/promo'', promo)] (shortcuts_key ''promo'') = Inr promo
   \<and> fst (HandleIDPInitiated MemoryStore (empty_Server [(''/shortcuts/promo'', promo)])
           ''promo'' ''campaign42'')
       = ServeIDPInitiated ''https://sp.example/meta'' ''campaign42''
   \<and> Get MemoryStore [(''/shortcuts/plain'', promo\<lparr>URISuffixAsRelayState := False\<rparr>)]
       (shortcuts_key ''plain'') = Inr (promo\<lparr>URISuffixAsRelayState := False\<rparr>)
   \<and> fst (HandleIDPInitiated MemoryStore
           (empty_Server [(''/shortcuts/plain'', promo\<lparr>URISuffixAsRelayState := False\<rparr>)])
           ''plain'' ''campaign42'')
       = ServeIDPInitiated ''https://sp.example/meta'' []
   \<and> fst (HandleIDPInitiated MemoryStore
          (snd (HandlePutShortcut MemoryStore (empty_Server []) ''promo''
                  (Decode_Shortcut (Some promo_body))))
          ''promo'' ''campaign42'')
       = ServeIDPInitiated ''https://sp.example/meta'' ''campaign42''"
proof -
  have st: "StoreState (empty_Server x) = x" for x
    by (simp add: empty_Server_def)
  have g: "Get MemoryStore [(shortcuts_key n, v)] (shortcuts_key n) = Inr v" for n and v :: Shortcut
    by (simp add: MemoryStore_def)
  have k: "''/shortcuts/fixed'' = shortcuts_key ''fixed''"
          "''/shortcuts/promo'' = shortcuts_key ''promo''"
          "''/shortcuts/plain'' = shortcuts_key ''plain''"
    by (simp_all add: shortcuts_key_def)
  have f: "RelayState (promo\<lparr>RelayState := Some ''home''\<rparr>) = Some ''home''"
          "RelayState promo = None" "URISuffixAsRelayState promo"
          "RelayState (promo\<lparr>URISuffixAsRelayState := False\<rparr>) = None"
          "\<not> URISuffixAsRelayState (promo\<lparr>URISuffixAsRelayState := False\<rparr>)"
          "ServiceProviderID promo = ''https://sp.example/meta''"
    by (simp_all add: promo_def)
  note a = idp_initiated_relay_state
    [of MemoryStore "empty_Server [(shortcuts_key ''fixed'', promo\<lparr>RelayState := Some ''home''\<rparr>)]"
        "''fixed''" "promo\<lparr>RelayState := Some ''home''\<rparr>" "''home''" "''campaign42''"
        "empty_Server []", THEN conjunct1, THEN mp]
  note b = idp_initiated_relay_state
    [of MemoryStore "empty_Server [(shortcuts_key ''promo'', promo)]"
        "''promo''" promo "''home''" "''campaign42''"
        "empty_Server []", THEN conjunct2, THEN conjunct1, THEN mp]
  note c = idp_initiated_relay_state
    [of MemoryStore "empty_Server [(shortcuts_key ''plain'', promo\<lparr>URISuffixAsRelayState := False\<rparr>)]"
        "''plain''" "promo\<lparr>URISuffixAsRelayState := False\<rparr>" "''home''" "''campaign42''"
        "empty_Server []", THEN conjunct2, THEN conjunct2, THEN conjunct1, THEN mp]
  note d = idp_initiated_relay_state
    [of MemoryStore "empty_Server []" "''promo''" promo "''home''" "''campaign42''"
        "empty_Server []", THEN conjunct2, THEN conjunct2, THEN conjunct2, THEN conjunct2]
  show ?thesis
    using a b c d
    by (simp add: k st g f)
qed

subsection \<open>The name of a stored Service\<close>

text \<open>
  C2. \<open>HandlePutUser\<close> and \<open>HandlePutShortcut\<close> overwrite \<open>Name\<close> with the path parameter
  (\<open>HandlePutUser_NoContent\<close>, \<open>HandlePutShortcut_NoContent\<close>). \<open>HandlePutService\<close> does
  not: a PUT of \<open>/services/app\<close> stores a \<open>Service\<close> whose \<open>Name\<close> is empty.
\<close>

theorem put_service_leaves_name_empty:
  "HandlePutService MemoryStore (empty_Server []) ''app'' (Inr sp_meta)
     = (WriteHeader StatusNoContent,
        \<lparr>serviceProviders = [EntityID sp_meta \<mapsto> sp_meta],
         StoreState = [(''/services/app'', \<lparr>Service.Name = [], Metadata = sp_meta\<rparr>)],
         logger = []\<rparr>)
   \<and> Get MemoryStore [(''/services/app'', \<lparr>Service.Name = [], Metadata = sp_meta\<rparr>)]
         (services_key ''app'')
       = Inr \<lparr>Service.Name = [], Metadata = sp_meta\<rparr>
   \<and> Service.Name \<lparr>Service.Name = [], Metadata = sp_meta\<rparr> \<noteq> ''app''"
  by (simp add: HandlePutService_def MemoryStore_def services_key_def empty_Server_def)

end
